theory Spec2Isabelle
  imports Complex_Main
begin

section \<open>RangeGuard: conflict detection and notification fan-out (backend/server.py)\<close>

text \<open>
  The development embeds the conflict classifier \<^verbatim>\<open>check_route_against_zones\<close>, the
  on-demand endpoint \<^verbatim>\<open>check_intersection\<close>, the buffer builder
  \<^verbatim>\<open>compute_buffer\<close> with \<^verbatim>\<open>create_zone\<close>, the route upload and
  the two background fan-out tasks of \<^verbatim>\<open>backend/server.py\<close>.

  Conventions of the embedding:
  \<^item> Python floats are read as real numbers; \<^verbatim>\<open>round(x, 1)\<close> is rounding to the
    nearest tenth, ties to the even tenth.
  \<^item> An exception is a value: a computation that may raise has type \<open>exn + 'a\<close>, with
    \<open>Inl\<close> the raised exception. A \<^verbatim>\<open>try/except Exception\<close> is a case
    distinction on that value.
  \<^item> The geometry library (shapely) is not part of the repository. Its operations are the
    fields of a record \<open>kernel\<close> that every function takes as its first argument.
  \<^item> The Mongo collections are lists in insertion order; \<^verbatim>\<open>to_list(n)\<close> keeps
    the first \<open>n\<close> documents.
  \<^item> Log lines, fresh UUIDs and wall-clock stamps of notifications are left out; the current
    time and the fresh identifier of a created document are arguments.
\<close>

subsection \<open>Exceptions\<close>

datatype exn =
    GeometryError string
  | AttributeError string
  | ZeroDivisionError

fun exn_str :: "exn \<Rightarrow> string" where
  "exn_str (GeometryError m) = m"
| "exn_str (AttributeError m) = m"
| "exn_str ZeroDivisionError = ''float division by zero''"

datatype http_exception = HTTPException nat string

text \<open>Sequencing of two computations that may raise: the second runs only when the first
  returned.\<close>

definition then_do :: "exn + 'a \<Rightarrow> ('a \<Rightarrow> exn + 'b) \<Rightarrow> exn + 'b" where
  "then_do m f = (case m of Inl e \<Rightarrow> Inl e | Inr x \<Rightarrow> f x)"

text \<open>\<^verbatim>\<open>a or b\<close>: \<open>b\<close> is evaluated only when \<open>a\<close> returned \<open>False\<close>.\<close>

definition py_or :: "exn + bool \<Rightarrow> exn + bool \<Rightarrow> exn + bool" where
  "py_or a b = (case a of Inl e \<Rightarrow> Inl e | Inr True \<Rightarrow> Inr True | Inr False \<Rightarrow> b)"

text \<open>\<^verbatim>\<open>(not a) and b\<close>: \<open>b\<close> is evaluated only when \<open>a\<close> returned \<open>False\<close>.\<close>

definition py_not_and :: "exn + bool \<Rightarrow> exn + bool \<Rightarrow> exn + bool" where
  "py_not_and a b = (case a of Inl e \<Rightarrow> Inl e | Inr True \<Rightarrow> Inr False | Inr False \<Rightarrow> b)"

subsection \<open>Arithmetic of the overlap percentage\<close>

definition py_truediv :: "real \<Rightarrow> real \<Rightarrow> exn + real" where
  "py_truediv a b = (if b = 0 then Inl ZeroDivisionError else Inr (a / b))"

definition round_half_even :: "real \<Rightarrow> int" where
  "round_half_even x =
     (let f = \<lfloor>x\<rfloor>; d = x - of_int f
      in if d < 1 / 2 then f
         else if 1 / 2 < d then f + 1
         else if even f then f else f + 1)"

text \<open>\<^verbatim>\<open>round(x, 1)\<close>\<close>

definition py_round1 :: "real \<Rightarrow> real" where
  "py_round1 x = of_int (round_half_even (x * 10)) / 10"

subsection \<open>Documents\<close>

type_synonym coord = "real \<times> real"

text \<open>A GeoJSON dictionary. \<open>EmptyDict\<close> is \<^verbatim>\<open>{}\<close> (falsy in Python);
  \<open>OtherDict\<close> stands for any other non-empty dictionary.\<close>

datatype geojson =
    LineString "coord list"
  | Polygon "coord list list"
  | EmptyDict
  | OtherDict

text \<open>A zone document. The three optional fields are the keys the code reads with
  \<^verbatim>\<open>zone.get(key, default)\<close>; \<open>None\<close> is an absent key.\<close>

record zone =
  z_id :: string
  z_name :: string
  z_description :: string
  z_geometry :: geojson
  z_buffered_geometry :: "geojson option"
  z_start_time :: string
  z_end_time :: string
  z_buffer_meters :: "int option"
  z_created_by :: string
  z_association_name :: "string option"
  z_created_at :: string

record route =
  r_id :: string
  r_name :: string
  r_geometry :: geojson
  r_user_id :: string
  r_file_name :: "string option"
  r_is_public :: bool
  r_owner_name :: string
  r_created_at :: string

record favorite =
  f_id :: string
  f_user_id :: string
  f_route_id :: string

record user =
  u_id :: string
  u_name :: string
  u_role :: string
  u_organization_name :: "string option"

text \<open>One entry of the list \<^verbatim>\<open>conflicts\<close>.\<close>

record conflict =
  c_zone_id :: string
  c_zone_name :: string
  c_association :: string
  c_start_time :: string
  c_end_time :: string
  c_overlap_percentage :: real
  c_conflict_type :: string
  c_buffer_meters :: int
  c_geometry :: geojson
  c_buffered_geometry :: "geojson option"

text \<open>The \<^verbatim>\<open>data\<close> payload of a notification and the notification document
  (without its fresh \<^verbatim>\<open>id\<close> and \<^verbatim>\<open>created_at\<close>).\<close>

record notif_data =
  d_route_id :: string
  d_route_name :: string
  d_zone_id :: string
  d_zone_name :: string
  d_conflict_type :: string
  d_zone_start :: string
  d_zone_end :: string

record notification =
  n_user_id :: string
  n_type :: string
  n_title :: string
  n_message :: string
  n_data :: notif_data
  n_read :: bool

record db =
  zones :: "zone list"
  routes :: "route list"
  favorites :: "favorite list"
  notifications :: "notification list"

subsection \<open>The geometry kernel\<close>

text \<open>The operations of shapely the code calls, over a type \<open>'s\<close> of shapes:
  \<^verbatim>\<open>shape(d)\<close>, \<^verbatim>\<open>a.contains(b)\<close>, \<^verbatim>\<open>a.intersects(b)\<close>,
  \<^verbatim>\<open>a.intersection(b)\<close>, \<^verbatim>\<open>a.buffer(d)\<close>, \<^verbatim>\<open>mapping(a)\<close>, and the
  attribute \<^verbatim>\<open>a.length\<close> (\<open>None\<close> when the object has no such attribute). Every
  call may raise.\<close>

record 's kernel =
  shape :: "geojson \<Rightarrow> exn + 's"
  contains :: "'s \<Rightarrow> 's \<Rightarrow> exn + bool"
  intersects :: "'s \<Rightarrow> 's \<Rightarrow> exn + bool"
  intersection :: "'s \<Rightarrow> 's \<Rightarrow> exn + 's"
  buffer :: "'s \<Rightarrow> real \<Rightarrow> exn + 's"
  mapping :: "'s \<Rightarrow> exn + geojson"
  length_attr :: "'s \<Rightarrow> real option"

text \<open>\<^verbatim>\<open>x.length\<close>, raising when the attribute is missing.\<close>

definition get_length :: "'s kernel \<Rightarrow> 's \<Rightarrow> exn + real" where
  "get_length K s =
     (case length_attr K s of
        None \<Rightarrow> Inl (AttributeError ''length'')
      | Some l \<Rightarrow> Inr l)"

subsection \<open>The conflict classifier\<close>

text \<open>The four lines that every path repeats:
  \<^verbatim>\<open>
  intersection = route_shape.intersection(zone_shape)
  overlap_length = intersection.length if hasattr(intersection, 'length') else 0
  route_length = route_shape.length if route_shape.length > 0 else 1
  overlap_pct = min(round((overlap_length / route_length) * 100, 1), 100)
  \<close>\<close>

definition overlap_pct :: "'s kernel \<Rightarrow> 's \<Rightarrow> 's \<Rightarrow> exn + real" where
  "overlap_pct K route_shape zone_shape =
     then_do (intersection K route_shape zone_shape) (\<lambda>inter.
     let overlap_length = (case length_attr K inter of Some l \<Rightarrow> l | None \<Rightarrow> 0) in
     then_do (get_length K route_shape) (\<lambda>rl.
     let route_length = (if 0 < rl then rl else 1) in
     then_do (py_truediv overlap_length route_length) (\<lambda>q.
     Inr (min (py_round1 (q * 100)) 100))))"

text \<open>\<^verbatim>\<open>zone.get("buffered_geometry", zone["geometry"])\<close>\<close>

definition zone_geom :: "zone \<Rightarrow> geojson" where
  "zone_geom z = (case z_buffered_geometry z of Some g \<Rightarrow> g | None \<Rightarrow> z_geometry z)"

definition mk_conflict :: "zone \<Rightarrow> real \<Rightarrow> string \<Rightarrow> conflict" where
  "mk_conflict z pct ty =
     \<lparr> c_zone_id = z_id z,
       c_zone_name = z_name z,
       c_association = (case z_association_name z of Some a \<Rightarrow> a | None \<Rightarrow> ''''),
       c_start_time = z_start_time z,
       c_end_time = z_end_time z,
       c_overlap_percentage = pct,
       c_conflict_type = ty,
       c_buffer_meters = (case z_buffer_meters z of Some b \<Rightarrow> b | None \<Rightarrow> 200),
       c_geometry = z_geometry z,
       c_buffered_geometry = z_buffered_geometry z \<rparr>"

text \<open>The body of the \<^verbatim>\<open>try\<close> block of \<^verbatim>\<open>check_route_against_zones\<close> for one
  zone: the exception it raises, or the conflict it appends (\<open>None\<close> when it appends
  nothing).\<close>

definition zone_step :: "'s kernel \<Rightarrow> 's \<Rightarrow> zone \<Rightarrow> exn + conflict option" where
  "zone_step K route_shape z =
     then_do (shape K (zone_geom z)) (\<lambda>zone_shape.
     then_do (shape K (z_geometry z)) (\<lambda>original_zone_shape.
     then_do (py_or (contains K original_zone_shape route_shape)
                    (contains K zone_shape route_shape)) (\<lambda>is_contained.
     then_do (intersects K route_shape zone_shape) (\<lambda>is_intersecting.
     then_do (py_not_and (intersects K original_zone_shape route_shape)
                         (intersects K zone_shape route_shape)) (\<lambda>is_within_buffer.
     if is_contained \<or> is_intersecting then
       if is_contained then Inr (Some (mk_conflict z 100 ''contained''))
       else if is_within_buffer then
         then_do (overlap_pct K route_shape zone_shape) (\<lambda>pct.
         Inr (Some (mk_conflict z pct ''buffer'')))
       else
         then_do (overlap_pct K route_shape zone_shape) (\<lambda>pct.
         Inr (Some (mk_conflict z pct ''intersects'')))
     else Inr None)))))"

text \<open>The loop of \<^verbatim>\<open>check_route_against_zones\<close>, with the list
  \<^verbatim>\<open>conflicts\<close> as accumulator; \<^verbatim>\<open>except Exception: continue\<close> leaves it as
  it is.\<close>

fun zones_loop :: "'s kernel \<Rightarrow> 's \<Rightarrow> zone list \<Rightarrow> conflict list \<Rightarrow> conflict list" where
  "zones_loop K route_shape [] conflicts = conflicts"
| "zones_loop K route_shape (z # rest) conflicts =
     (case zone_step K route_shape z of
        Inl e \<Rightarrow> zones_loop K route_shape rest conflicts
      | Inr None \<Rightarrow> zones_loop K route_shape rest conflicts
      | Inr (Some c) \<Rightarrow> zones_loop K route_shape rest (conflicts @ [c]))"

definition check_route_against_zones :: "'s kernel \<Rightarrow> 's \<Rightarrow> zone list \<Rightarrow> conflict list" where
  "check_route_against_zones K route_shape active_zones =
     zones_loop K route_shape active_zones []"

subsection \<open>Selecting zones by time\<close>

text \<open>The order Mongo uses on strings without a collation: bytewise, a proper prefix
  first.\<close>

fun str_le :: "string \<Rightarrow> string \<Rightarrow> bool" where
  "str_le [] t = True"
| "str_le (c # cs) [] = False"
| "str_le (c # cs) (d # ds) =
     (if (of_char c :: nat) < of_char d then True
      else if (of_char d :: nat) < of_char c then False
      else str_le cs ds)"

text \<open>The filter document
  \<^verbatim>\<open>{"start_time": {"$lte": check_time}, "end_time": {"$gte": check_time}}\<close>.\<close>

definition covers :: "string \<Rightarrow> zone \<Rightarrow> bool" where
  "covers check_time z \<longleftrightarrow>
     str_le (z_start_time z) check_time \<and> str_le check_time (z_end_time z)"

text \<open>\<^verbatim>\<open>db.zones.find({...}, {"_id": 0}).to_list(1000)\<close>\<close>

definition find_active_zones :: "db \<Rightarrow> string \<Rightarrow> zone list" where
  "find_active_zones d check_time = take 1000 (filter (covers check_time) (zones d))"

text \<open>Truthiness of an optional string and of an optional dictionary.\<close>

definition truthy_str :: "string option \<Rightarrow> bool" where
  "truthy_str s = (case s of None \<Rightarrow> False | Some t \<Rightarrow> t \<noteq> [])"

definition truthy_geo :: "geojson option \<Rightarrow> bool" where
  "truthy_geo g = (case g of None \<Rightarrow> False | Some EmptyDict \<Rightarrow> False | Some _ \<Rightarrow> True)"

text \<open>\<^verbatim>\<open>GET /zones\<close>; \<open>now\<close> is \<^verbatim>\<open>datetime.now(timezone.utc).isoformat()\<close>.\<close>

definition get_zones :: "db \<Rightarrow> string \<Rightarrow> bool option \<Rightarrow> string option \<Rightarrow> zone list" where
  "get_zones d now active date =
     (if active = Some True \<or> truthy_str date then
        (let check_time = (if truthy_str date then the date else now)
         in take 1000 (filter (covers check_time) (zones d)))
      else take 1000 (zones d))"

subsection \<open>The on-demand check\<close>

record intersection_request =
  q_route_id :: "string option"
  q_route_geometry :: "geojson option"
  q_check_time :: "string option"

record intersection_result =
  i_intersects :: bool
  i_zones :: "conflict list"
  i_safe_message :: string

text \<open>\<^verbatim>\<open>any(c["conflict_type"] == ty for c in conflicts)\<close>\<close>

definition has_type :: "string \<Rightarrow> conflict list \<Rightarrow> bool" where
  "has_type ty conflicts = list_ex (\<lambda>c. c_conflict_type c = ty) conflicts"

text \<open>The summary message chosen from the list of conflicts.\<close>

definition summary_message :: "conflict list \<Rightarrow> string" where
  "summary_message conflicts =
     (let has_contained = has_type ''contained'' conflicts;
          has_intersect = has_type ''intersects'' conflicts
      in if has_contained then
           ''CRITICAL: Your entire route is inside an active hunting zone!''
         else if has_intersect then
           ''WARNING: Your route crosses active hunting zones!''
         else if conflicts \<noteq> [] then
           ''CAUTION: Your route enters a buffer/safety zone near hunting areas.''
         else ''Safe: No conflicts with active hunting zones.'')"

text \<open>The route geometry the request designates: the stored route's when
  \<^verbatim>\<open>route_id\<close> is given, the inline one otherwise.\<close>

definition request_geometry ::
  "db \<Rightarrow> intersection_request \<Rightarrow> http_exception + geojson" where
  "request_geometry d data =
     (case (if truthy_str (q_route_id data) then
              (case find (\<lambda>r. r_id r = the (q_route_id data)) (routes d) of
                 None \<Rightarrow> Inl (HTTPException 404 ''Route not found'')
               | Some r \<Rightarrow> Inr (Some (r_geometry r)))
            else Inr (q_route_geometry data)) of
        Inl h \<Rightarrow> Inl h
      | Inr route_geom_data \<Rightarrow>
          if \<not> truthy_geo route_geom_data then
            Inl (HTTPException 400 ''No route geometry provided'')
          else Inr (the route_geom_data))"

text \<open>\<^verbatim>\<open>data.check_time or datetime.now(timezone.utc).isoformat()\<close>\<close>

definition request_time :: "string \<Rightarrow> intersection_request \<Rightarrow> string" where
  "request_time now data =
     (if truthy_str (q_check_time data) then the (q_check_time data) else now)"

definition check_intersection ::
  "'s kernel \<Rightarrow> db \<Rightarrow> string \<Rightarrow> intersection_request
     \<Rightarrow> http_exception + intersection_result" where
  "check_intersection K d now data =
     (let check_time = request_time now data
      in case request_geometry d data of
        Inl h \<Rightarrow> Inl h
      | Inr route_geom_data \<Rightarrow>
          (let active_zones = find_active_zones d check_time in
           if active_zones = [] then
             Inr \<lparr> i_intersects = False, i_zones = [],
                   i_safe_message = ''No active hunting zones at the selected time.'' \<rparr>
           else
             (case shape K route_geom_data of
                Inl e \<Rightarrow> Inl (HTTPException 400 (''Invalid route geometry: '' @ exn_str e))
              | Inr route_shape \<Rightarrow>
                  (let conflicts = check_route_against_zones K route_shape active_zones
                   in Inr \<lparr> i_intersects = (0 < length conflicts), i_zones = conflicts,
                            i_safe_message = summary_message conflicts \<rparr>))))"

subsection \<open>Buffering and zone creation\<close>

definition compute_buffer :: "'s kernel \<Rightarrow> geojson \<Rightarrow> int \<Rightarrow> geojson" where
  "compute_buffer K geometry buffer_meters =
     (case then_do (shape K geometry) (\<lambda>geom.
           let buffer_deg = of_int buffer_meters / 111320 in
           then_do (buffer K geom buffer_deg) (\<lambda>buffered.
           mapping K buffered)) of
        Inl e \<Rightarrow> geometry
      | Inr g \<Rightarrow> g)"

text \<open>A background task handed to \<^verbatim>\<open>asyncio.create_task\<close>.\<close>

datatype task =
    CheckRoutesAgainstNewZone zone
  | CheckUploadedRouteAgainstZones route string

record zone_create =
  zc_name :: string
  zc_description :: "string option"
  zc_geometry :: geojson
  zc_start_time :: string
  zc_end_time :: string
  zc_buffer_meters :: int

text \<open>\<^verbatim>\<open>POST /zones\<close>. \<open>zone_id\<close> is the fresh UUID, \<open>now\<close> the creation stamp. The
  result is the returned document, the store after the insert and the tasks scheduled.\<close>

definition create_zone ::
  "'s kernel \<Rightarrow> db \<Rightarrow> string \<Rightarrow> string \<Rightarrow> zone_create \<Rightarrow> user
     \<Rightarrow> http_exception + (zone \<times> db \<times> task list)" where
  "create_zone K d zone_id now data usr =
     (if u_role usr \<noteq> ''admin'' then Inl (HTTPException 403 ''Only admins can create zones'')
      else
        (let buffered_geom = compute_buffer K (zc_geometry data) (zc_buffer_meters data);
             zone_doc =
               \<lparr> z_id = zone_id,
                 z_name = zc_name data,
                 z_description = (if truthy_str (zc_description data)
                                  then the (zc_description data) else []),
                 z_geometry = zc_geometry data,
                 z_buffered_geometry = Some buffered_geom,
                 z_start_time = zc_start_time data,
                 z_end_time = zc_end_time data,
                 z_buffer_meters = Some (zc_buffer_meters data),
                 z_created_by = u_id usr,
                 z_association_name =
                   Some (case u_organization_name usr of Some n \<Rightarrow> n | None \<Rightarrow> u_name usr),
                 z_created_at = now \<rparr>
         in Inr (zone_doc, d\<lparr>zones := zones d @ [zone_doc]\<rparr>,
                 [CheckRoutesAgainstNewZone zone_doc])))"

subsection \<open>Notification fan-out\<close>

text \<open>String pieces of the f-strings: a name between single quotes, the line feed, and
  \<^verbatim>\<open>s[:16]\<close>.\<close>

definition quoted :: "string \<Rightarrow> string" where
  "quoted s = CHR 0x27 # s @ [CHR 0x27]"

definition newline :: string where
  "newline = [CHR 0x0A]"

definition assoc_of :: "zone \<Rightarrow> string" where
  "assoc_of z = (case z_association_name z of Some a \<Rightarrow> a | None \<Rightarrow> [])"

definition active_span :: "zone \<Rightarrow> string" where
  "active_span z = take 16 (z_start_time z) @ '' - '' @ take 16 (z_end_time z)"

definition mk_notif_data :: "route \<Rightarrow> zone \<Rightarrow> string \<Rightarrow> notif_data" where
  "mk_notif_data r z conflict_type =
     \<lparr> d_route_id = r_id r,
       d_route_name = r_name r,
       d_zone_id = z_id z,
       d_zone_name = z_name z,
       d_conflict_type = conflict_type,
       d_zone_start = z_start_time z,
       d_zone_end = z_end_time z \<rparr>"

text \<open>\<^verbatim>\<open>create_notification\<close>: the document it inserts.\<close>

definition create_notification ::
  "string \<Rightarrow> string \<Rightarrow> string \<Rightarrow> string \<Rightarrow> notif_data \<Rightarrow> notification" where
  "create_notification user_id notif_type title message data =
     \<lparr> n_user_id = user_id, n_type = notif_type, n_title = title, n_message = message,
       n_data = data, n_read = False \<rparr>"

text \<open>The set \<^verbatim>\<open>users_to_notify\<close>: the owner unless anonymous, then everyone who
  favorited the route. Python iterates a set in no specified order; the list here is in
  insertion order without repetitions, and the theorems below speak of its elements only.\<close>

definition users_to_notify :: "db \<Rightarrow> route \<Rightarrow> string list" where
  "users_to_notify d r =
     remdups ((if r_user_id r \<noteq> ''anonymous'' then [r_user_id r] else []) @
              map f_user_id (take 5000 (filter (\<lambda>f. f_route_id f = r_id r) (favorites d))))"

text \<open>The notification of \<^verbatim>\<open>check_routes_against_new_zone\<close> for one recipient;
  \<open>fstr\<close> is Python's conversion of a float to a string.\<close>

definition new_zone_notification ::
  "(real \<Rightarrow> string) \<Rightarrow> zone \<Rightarrow> route \<Rightarrow> bool \<Rightarrow> real \<Rightarrow> notif_data \<Rightarrow> string \<Rightarrow> notification" where
  "new_zone_notification fstr zone_doc r is_contained pct data uid =
     (let is_owner = (uid = r_user_id r);
          whose = (if is_owner then ''Your'' else ''Favorite'')
      in if is_contained then
           create_notification uid ''zone_conflict''
             (''CRITICAL: '' @ whose @ '' route '' @ quoted (r_name r) @ '' inside new zone'')
             (whose @ '' route '' @ quoted (r_name r) @ '' is completely inside '' @
              ''the new hunting zone '' @ quoted (z_name zone_doc) @
              '' ('' @ assoc_of zone_doc @ '').'' @ newline @
              ''Active: '' @ active_span zone_doc @ ''.'' @ newline @
              ''Do NOT use this route during hunting hours.'')
             data
         else
           create_notification uid ''zone_conflict''
             (''WARNING: '' @ whose @ '' route '' @ quoted (r_name r) @ '' crosses new zone'')
             (whose @ '' route '' @ quoted (r_name r) @ '' intersects ('' @ fstr pct @
              ''%) '' @ ''with the new hunting zone '' @ quoted (z_name zone_doc) @
              '' ('' @ assoc_of zone_doc @ '').'' @ newline @
              ''Active: '' @ active_span zone_doc @ ''.'' @ newline @
              ''Review this route before heading out.'')
             data)"

text \<open>The body of the inner \<^verbatim>\<open>try\<close> block of
  \<^verbatim>\<open>check_routes_against_new_zone\<close> for one route: the exception it raises, or the
  notifications it creates. Every geometry call precedes the first notification, so a
  raising body has created none.\<close>

definition new_zone_route_step ::
  "'s kernel \<Rightarrow> (real \<Rightarrow> string) \<Rightarrow> db \<Rightarrow> zone \<Rightarrow> 's \<Rightarrow> 's \<Rightarrow> route
     \<Rightarrow> exn + notification list" where
  "new_zone_route_step K fstr d zone_doc zone_shape original_zone_shape r =
     then_do (shape K (r_geometry r)) (\<lambda>route_shape.
     then_do (py_or (contains K original_zone_shape route_shape)
                    (contains K zone_shape route_shape)) (\<lambda>is_contained.
     then_do (intersects K route_shape zone_shape) (\<lambda>is_intersecting.
     if is_contained \<or> is_intersecting then
       then_do (if is_contained then Inr (''contained'', 100)
                else then_do (overlap_pct K route_shape zone_shape) (\<lambda>pct.
                     Inr (''intersects'', pct))) (\<lambda>(conflict_type, pct).
       let data = mk_notif_data r zone_doc conflict_type
       in Inr (map (new_zone_notification fstr zone_doc r is_contained pct data)
                 (users_to_notify d r)))
     else Inr [])))"

fun new_zone_loop ::
  "'s kernel \<Rightarrow> (real \<Rightarrow> string) \<Rightarrow> db \<Rightarrow> zone \<Rightarrow> 's \<Rightarrow> 's \<Rightarrow> route list
     \<Rightarrow> notification list \<Rightarrow> notification list" where
  "new_zone_loop K fstr d zone_doc zs ozs [] created = created"
| "new_zone_loop K fstr d zone_doc zs ozs (r # rest) created =
     (case new_zone_route_step K fstr d zone_doc zs ozs r of
        Inl e \<Rightarrow> new_zone_loop K fstr d zone_doc zs ozs rest created
      | Inr ns \<Rightarrow> new_zone_loop K fstr d zone_doc zs ozs rest (created @ ns))"

text \<open>\<^verbatim>\<open>check_routes_against_new_zone\<close>: the notifications it creates, in order. The
  outer \<^verbatim>\<open>try\<close> swallows a failure to build either shape of the zone.\<close>

definition check_routes_against_new_zone ::
  "'s kernel \<Rightarrow> (real \<Rightarrow> string) \<Rightarrow> db \<Rightarrow> zone \<Rightarrow> notification list" where
  "check_routes_against_new_zone K fstr d zone_doc =
     (case shape K (zone_geom zone_doc) of
        Inl e \<Rightarrow> []
      | Inr zone_shape \<Rightarrow>
          (case shape K (z_geometry zone_doc) of
             Inl e \<Rightarrow> []
           | Inr original_zone_shape \<Rightarrow>
               new_zone_loop K fstr d zone_doc zone_shape original_zone_shape
                 (take 5000 (routes d)) []))"

text \<open>The body of the inner \<^verbatim>\<open>try\<close> block of
  \<^verbatim>\<open>check_uploaded_route_against_zones\<close> for one zone.\<close>

definition uploaded_zone_step ::
  "'s kernel \<Rightarrow> (real \<Rightarrow> string) \<Rightarrow> route \<Rightarrow> string \<Rightarrow> 's \<Rightarrow> zone
     \<Rightarrow> exn + notification list" where
  "uploaded_zone_step K fstr route_doc user_id route_shape z =
     then_do (shape K (zone_geom z)) (\<lambda>zone_shape.
     then_do (shape K (z_geometry z)) (\<lambda>original_zone_shape.
     then_do (py_or (contains K original_zone_shape route_shape)
                    (contains K zone_shape route_shape)) (\<lambda>is_contained.
     then_do (intersects K route_shape zone_shape) (\<lambda>is_intersecting.
     if is_contained \<or> is_intersecting then
       if is_contained then
         Inr [create_notification user_id ''route_warning''
                (''CRITICAL: '' @ quoted (r_name route_doc) @ '' is inside hunting zone '' @
                 quoted (z_name z))
                (''Your newly uploaded route '' @ quoted (r_name route_doc) @
                 '' is completely inside '' @ ''the hunting zone '' @ quoted (z_name z) @
                 '' ('' @ assoc_of z @ '').'' @ newline @
                 ''Active period: '' @ active_span z @ ''.'' @ newline @
                 ''Do NOT use this route during hunting hours.'')
                (mk_notif_data route_doc z ''contained'')]
       else
         then_do (overlap_pct K route_shape zone_shape) (\<lambda>pct.
         Inr [create_notification user_id ''route_warning''
                (''WARNING: '' @ quoted (r_name route_doc) @ '' crosses hunting zone '' @
                 quoted (z_name z))
                (''Your route '' @ quoted (r_name route_doc) @ '' intersects ('' @ fstr pct @
                 ''%) with '' @ ''the hunting zone '' @ quoted (z_name z) @
                 '' ('' @ assoc_of z @ '').'' @ newline @
                 ''Active period: '' @ active_span z @ ''.'' @ newline @
                 ''Avoid this area during hunting hours.'')
                (mk_notif_data route_doc z ''intersects'')])
     else Inr []))))"

fun uploaded_loop ::
  "'s kernel \<Rightarrow> (real \<Rightarrow> string) \<Rightarrow> route \<Rightarrow> string \<Rightarrow> 's \<Rightarrow> zone list
     \<Rightarrow> notification list \<Rightarrow> notification list" where
  "uploaded_loop K fstr route_doc user_id rs [] created = created"
| "uploaded_loop K fstr route_doc user_id rs (z # rest) created =
     (case uploaded_zone_step K fstr route_doc user_id rs z of
        Inl e \<Rightarrow> uploaded_loop K fstr route_doc user_id rs rest created
      | Inr ns \<Rightarrow> uploaded_loop K fstr route_doc user_id rs rest (created @ ns))"

text \<open>\<^verbatim>\<open>check_uploaded_route_against_zones\<close>: the notifications it creates, in
  order; \<open>now\<close> is the time of the run.\<close>

definition check_uploaded_route_against_zones ::
  "'s kernel \<Rightarrow> (real \<Rightarrow> string) \<Rightarrow> db \<Rightarrow> string \<Rightarrow> route \<Rightarrow> string \<Rightarrow> notification list" where
  "check_uploaded_route_against_zones K fstr d now route_doc user_id =
     (case shape K (r_geometry route_doc) of
        Inl e \<Rightarrow> []
      | Inr route_shape \<Rightarrow>
          uploaded_loop K fstr route_doc user_id route_shape
            (take 5000 (filter (\<lambda>z. str_le now (z_end_time z)) (zones d))) [])"

text \<open>Running a scheduled task against the store: the notifications it appends.\<close>

fun run_task :: "'s kernel \<Rightarrow> (real \<Rightarrow> string) \<Rightarrow> string \<Rightarrow> db \<Rightarrow> task \<Rightarrow> db" where
  "run_task K fstr now d (CheckRoutesAgainstNewZone zone_doc) =
     d\<lparr>notifications := notifications d @ check_routes_against_new_zone K fstr d zone_doc\<rparr>"
| "run_task K fstr now d (CheckUploadedRouteAgainstZones route_doc user_id) =
     d\<lparr>notifications := notifications d @
          check_uploaded_route_against_zones K fstr d now route_doc user_id\<rparr>"

subsection \<open>Route upload\<close>

text \<open>What \<^verbatim>\<open>gpxpy.parse\<close> returns, as far as the upload reads it: tracks of segments
  of (longitude, latitude) points, the waypoints and the optional name.\<close>

record gpx =
  gpx_tracks :: "coord list list list"
  gpx_waypoints :: "coord list"
  gpx_name :: "string option"

text \<open>\<^verbatim>\<open>POST /routes/upload\<close>. \<open>parsed\<close> is the outcome of \<^verbatim>\<open>gpxpy.parse\<close>,
  \<open>usr\<close> that of \<^verbatim>\<open>get_optional_user\<close>, \<open>route_id\<close> the fresh UUID. The result is the
  returned document, the store after the insert and the tasks scheduled.\<close>

definition upload_route ::
  "db \<Rightarrow> string \<Rightarrow> string \<Rightarrow> (exn + gpx) \<Rightarrow> string \<Rightarrow> string option \<Rightarrow> user option
     \<Rightarrow> http_exception + (route \<times> db \<times> task list)" where
  "upload_route d route_id now parsed name filename usr =
     (case parsed of
        Inl e \<Rightarrow> Inl (HTTPException 400 (''Invalid GPX file: '' @ exn_str e))
      | Inr g \<Rightarrow>
          (let track_points = concat (concat (gpx_tracks g));
               coordinates = (if length track_points < 2 then track_points @ gpx_waypoints g
                              else track_points)
           in if length coordinates < 2 then
                Inl (HTTPException 400 ''GPX file has insufficient points'')
              else
                (let geometry = LineString coordinates;
                     route_name = (if name \<noteq> [] then name
                                   else if truthy_str (gpx_name g) then the (gpx_name g)
                                   else if truthy_str filename then the filename
                                   else ''Unnamed Route'');
                     user_id = (case usr of Some u \<Rightarrow> u_id u | None \<Rightarrow> ''anonymous'');
                     route_doc =
                       \<lparr> r_id = route_id,
                         r_name = route_name,
                         r_geometry = geometry,
                         r_user_id = user_id,
                         r_file_name = filename,
                         r_is_public = True,
                         r_owner_name = (case usr of Some u \<Rightarrow> u_name u | None \<Rightarrow> ''Anonymous''),
                         r_created_at = now \<rparr>
                 in Inr (route_doc, d\<lparr>routes := routes d @ [route_doc]\<rparr>,
                         (if usr \<noteq> None \<and> user_id \<noteq> ''anonymous''
                          then [CheckUploadedRouteAgainstZones route_doc user_id]
                          else [])))))"

subsection \<open>An instance of the kernel: axis-parallel boxes\<close>

text \<open>To evaluate the functions above at concrete inputs, the kernel is instantiated with
  planar geometry restricted to axis-parallel shapes: a rectangle, an axis-parallel
  segment, a point, or the empty geometry. \<open>Box x0 x1 y0 y1\<close> is the closed set
  \<open>[x0, x1] \<times> [y0, y1]\<close>. On these shapes the operations are those of the planar kernel:
  containment asks for inclusion and a common interior point, the length of a rectangle is
  its perimeter, and buffering uses square corners.\<close>

datatype bshape = Box real real real real | Empty

fun box_shape :: "geojson \<Rightarrow> exn + bshape" where
  "box_shape (LineString [(a, b), (c, d)]) =
     (if b = d then Inr (Box (min a c) (max a c) b b)
      else if a = c then Inr (Box a a (min b d) (max b d))
      else Inl (GeometryError ''segment is not axis-parallel''))"
| "box_shape (Polygon [[(a, b), (c, d), (e, f), (g, h), (i, j)]]) =
     (if a < c \<and> b = d \<and> e = c \<and> d < f \<and> g = a \<and> h = f \<and> i = a \<and> j = b
      then Inr (Box a c b f)
      else Inl (GeometryError ''ring is not an axis-parallel rectangle''))"
| "box_shape (Polygon []) = Inr Empty"
| "box_shape g = Inl (GeometryError ''unsupported geometry'')"

text \<open>On one axis: inclusion of closed intervals, and whether the relative interiors
  meet.\<close>

definition axis_within :: "real \<Rightarrow> real \<Rightarrow> real \<Rightarrow> real \<Rightarrow> bool" where
  "axis_within a0 a1 b0 b1 \<longleftrightarrow> a0 \<le> b0 \<and> b1 \<le> a1"

definition axis_interiors_meet :: "real \<Rightarrow> real \<Rightarrow> real \<Rightarrow> real \<Rightarrow> bool" where
  "axis_interiors_meet a0 a1 b0 b1 \<longleftrightarrow>
     (if a0 < a1 then (if b0 < b1 then max a0 b0 < min a1 b1 else a0 < b0 \<and> b0 < a1)
      else (if b0 < b1 then b0 < a0 \<and> a0 < b1 else a0 = b0))"

fun box_contains :: "bshape \<Rightarrow> bshape \<Rightarrow> exn + bool" where
  "box_contains (Box a0 a1 b0 b1) (Box c0 c1 d0 d1) =
     Inr (axis_within a0 a1 c0 c1 \<and> axis_within b0 b1 d0 d1 \<and>
          axis_interiors_meet a0 a1 c0 c1 \<and> axis_interiors_meet b0 b1 d0 d1)"
| "box_contains s t = Inr False"

fun box_meet :: "bshape \<Rightarrow> bshape \<Rightarrow> bshape" where
  "box_meet (Box a0 a1 b0 b1) (Box c0 c1 d0 d1) =
     (if max a0 c0 \<le> min a1 c1 \<and> max b0 d0 \<le> min b1 d1
      then Box (max a0 c0) (min a1 c1) (max b0 d0) (min b1 d1)
      else Empty)"
| "box_meet s t = Empty"

definition box_intersects :: "bshape \<Rightarrow> bshape \<Rightarrow> exn + bool" where
  "box_intersects s t = Inr (box_meet s t \<noteq> Empty)"

fun box_buffer :: "bshape \<Rightarrow> real \<Rightarrow> exn + bshape" where
  "box_buffer (Box x0 x1 y0 y1) w =
     (if x0 - w \<le> x1 + w \<and> y0 - w \<le> y1 + w
      then Inr (Box (x0 - w) (x1 + w) (y0 - w) (y1 + w))
      else Inr Empty)"
| "box_buffer Empty w = Inr Empty"

fun box_mapping :: "bshape \<Rightarrow> exn + geojson" where
  "box_mapping (Box x0 x1 y0 y1) =
     (if x0 < x1 \<and> y0 < y1
      then Inr (Polygon [[(x0, y0), (x1, y0), (x1, y1), (x0, y1), (x0, y0)]])
      else Inr (LineString [(x0, y0), (x1, y1)]))"
| "box_mapping Empty = Inr (Polygon [])"

fun box_length :: "bshape \<Rightarrow> real" where
  "box_length (Box x0 x1 y0 y1) =
     (if y0 = y1 then \<bar>x1 - x0\<bar>
      else if x0 = x1 then \<bar>y1 - y0\<bar>
      else 2 * (\<bar>x1 - x0\<bar> + \<bar>y1 - y0\<bar>))"
| "box_length Empty = 0"

definition box_kernel :: "bshape kernel" where
  "box_kernel =
     \<lparr> shape = box_shape,
       contains = box_contains,
       intersects = box_intersects,
       intersection = (\<lambda>s t. Inr (box_meet s t)),
       buffer = box_buffer,
       mapping = box_mapping,
       length_attr = (\<lambda>s. Some (box_length s)) \<rparr>"

text \<open>Sample documents: a zone whose raw polygon is \<open>[4, 6] \<times> [-1, 1]\<close>, and a route from two
  points, owned by \<open>owner\<close>.\<close>

definition sample_polygon :: geojson where
  "sample_polygon = Polygon [[(4, -1), (6, -1), (6, 1), (4, 1), (4, -1)]]"

text \<open>The buffered polygon \<open>[3, 7] \<times> [-2, 2]\<close>: the raw one widened by one degree, that
  is by 111320 meters.\<close>

definition sample_buffered :: geojson where
  "sample_buffered = Polygon [[(3, -2), (7, -2), (7, 2), (3, 2), (3, -2)]]"

definition sample_zone :: "geojson option \<Rightarrow> zone" where
  "sample_zone buffered =
     \<lparr> z_id = ''z1'', z_name = ''Coto'', z_description = [],
       z_geometry = sample_polygon,
       z_buffered_geometry = buffered,
       z_start_time = ''2026-01-01T00:00:00+00:00'',
       z_end_time = ''2026-12-31T00:00:00+00:00'',
       z_buffer_meters = Some 111320, z_created_by = ''admin1'',
       z_association_name = Some ''Club'', z_created_at = ''2026-01-01T00:00:00+00:00'' \<rparr>"

definition sample_route :: "string \<Rightarrow> coord \<Rightarrow> coord \<Rightarrow> route" where
  "sample_route owner p q =
     \<lparr> r_id = ''r1'', r_name = ''Senda'', r_geometry = LineString [p, q],
       r_user_id = owner, r_file_name = None, r_is_public = True,
       r_owner_name = ''Ana'', r_created_at = ''2026-01-01T00:00:00+00:00'' \<rparr>"

definition sample_db :: "zone list \<Rightarrow> route list \<Rightarrow> favorite list \<Rightarrow> db" where
  "sample_db zs rs fs = \<lparr> zones = zs, routes = rs, favorites = fs, notifications = [] \<rparr>"

text \<open>A parsed GPX file with one track of one segment, from \<open>(0, 0)\<close> to \<open>(10, 0)\<close>.\<close>

definition sample_gpx :: gpx where
  "sample_gpx = \<lparr> gpx_tracks = [[[(0, 0), (10, 0)]]], gpx_waypoints = [], gpx_name = None \<rparr>"

text \<open>The sample zone without buffered geometry, with the identifier made of \<open>n\<close> letters.\<close>

definition numbered_zone :: "nat \<Rightarrow> zone" where
  "numbered_zone n = sample_zone None\<lparr>z_id := replicate n CHR ''a''\<rparr>"

text \<open>Python's \<^verbatim>\<open>str\<close> of a float that is a multiple of one tenth in \<open>[0, 1000)\<close>, the
  range of an overlap percentage.\<close>

definition digit :: "nat \<Rightarrow> char" where
  "digit n = ''0123456789'' ! n"

definition float_str :: "real \<Rightarrow> string" where
  "float_str x =
     (let n = nat \<lfloor>x * 10\<rfloor>; i = n div 10
      in (if 100 \<le> i then [digit (i div 100)] else []) @
         (if 10 \<le> i then [digit (i div 10 mod 10)] else []) @
         [digit (i mod 10), CHR ''.'', digit (n mod 10)])"

subsection \<open>The overlap of an intersecting route as the specification words it\<close>


section \<open>Properties\<close>

subsection \<open>Auxiliary facts about the loops\<close>

lemma then_do_Inr [simp]: "then_do (Inr x) f = f x"
  by (simp add: then_do_def)

lemma then_do_Inl [simp]: "then_do (Inl e) f = Inl e"
  by (simp add: then_do_def)

lemma then_do_eq_Inr:
  "then_do m f = Inr y \<longleftrightarrow> (\<exists>x. m = Inr x \<and> f x = Inr y)"
  by (cases m) simp_all

lemma zones_loop_acc: "zones_loop K r zs acc = acc @ zones_loop K r zs []"
proof (induction zs arbitrary: acc)
  case Nil
  then show ?case by simp
next
  case (Cons z zs)
  show ?case
  proof (cases "zone_step K r z")
    case (Inl e)
    then show ?thesis using Cons.IH [of acc] by simp
  next
    case (Inr v)
    show ?thesis
    proof (cases v)
      case None
      with Inr show ?thesis using Cons.IH [of acc] by simp
    next
      case (Some c)
      with Inr show ?thesis using Cons.IH [of "acc @ [c]"] Cons.IH [of "[c]"] by simp
    qed
  qed
qed

lemma check_Nil: "check_route_against_zones K r [] = []"
  by (simp add: check_route_against_zones_def)

lemma check_Cons:
  "check_route_against_zones K r (z # zs) =
     (case zone_step K r z of Inr (Some c) \<Rightarrow> [c] | _ \<Rightarrow> []) @ check_route_against_zones K r zs"
  using zones_loop_acc [of K r zs "[c]" for c]
  by (simp add: check_route_against_zones_def split: sum.splits option.splits)

lemma check_append:
  "check_route_against_zones K r (xs @ ys) =
     check_route_against_zones K r xs @ check_route_against_zones K r ys"
  by (induction xs) (simp_all add: check_Nil check_Cons)

lemma in_check_iff:
  "c \<in> set (check_route_against_zones K r zs) \<longleftrightarrow>
     (\<exists>z \<in> set zs. zone_step K r z = Inr (Some c))"
  by (induction zs) (auto simp: check_Nil check_Cons split: sum.splits option.splits)

text \<open>What a zone contributes when its step returns a conflict.\<close>

lemma check_middle:
  assumes "zone_step K r z = Inr (Some c)"
  shows "check_route_against_zones K r (pre @ z # post) =
           check_route_against_zones K r pre @ [c] @ check_route_against_zones K r post"
  using assms by (simp add: check_append check_Cons)


text \<open>The three labels a conflict can carry.\<close>

lemma zone_step_type:
  assumes "zone_step K r z = Inr (Some c)"
  shows "c_conflict_type c = ''contained'' \<or> c_conflict_type c = ''buffer'' \<or>
         c_conflict_type c = ''intersects''"
  using assms
  by (auto simp: zone_step_def then_do_eq_Inr mk_conflict_def split: if_splits)

text \<open>Evaluation of the kernel of boxes and of the sample documents.\<close>

lemmas box_eval =
  box_kernel_def box_intersects_def axis_within_def axis_interiors_meet_def
  sample_zone_def sample_polygon_def sample_buffered_def sample_route_def sample_db_def

lemmas classifier_eval =
  check_route_against_zones_def zone_step_def zone_geom_def py_or_def py_not_and_def
  overlap_pct_def get_length_def py_truediv_def py_round1_def round_half_even_def
  mk_conflict_def

subsection \<open>C3: containment takes precedence\<close>

text \<open>
  Claim C3. If the route is contained in the raw polygon of a zone, or in its buffered
  polygon, and the kernel's predicates return on the pair, the classifier reports the zone
  with verdict \<open>contained\<close> and overlap exactly 100, whatever the buffer distance. Nothing
  is assumed about \<open>intersection\<close> or about lengths: the overlap computation of the other
  two verdicts is not used. The zone may stand anywhere in the batch.
\<close>

theorem contained_takes_precedence:
  assumes "shape K (zone_geom z) = Inr zs"
    and "shape K (z_geometry z) = Inr ozs"
    and "contains K ozs r = Inr True \<or>
         (contains K ozs r = Inr False \<and> contains K zs r = Inr True)"
    and "intersects K r zs = Inr i"
    and "intersects K ozs r = Inr True \<or>
         (intersects K ozs r = Inr False \<and> intersects K zs r = Inr j)"
  shows "\<exists>c. check_route_against_zones K r (pre @ z # post) =
               check_route_against_zones K r pre @ [c] @ check_route_against_zones K r post \<and>
             c_zone_id c = z_id z \<and> c_conflict_type c = ''contained'' \<and>
             c_overlap_percentage c = 100"
proof -
  have "zone_step K r z = Inr (Some (mk_conflict z 100 ''contained''))"
    using assms by (auto simp: zone_step_def py_or_def py_not_and_def)
  from check_middle [OF this, of pre post] show ?thesis
    by (intro exI [of _ "mk_conflict z 100 ''contained''"]) (simp add: mk_conflict_def)
qed

theorem contained_takes_precedence_witness:
  "\<exists>c. check_route_against_zones box_kernel (Box 5 5 (3/2) (3/2)) [sample_zone (Some sample_buffered)] =
         [c] \<and>
       c_zone_id c = ''z1'' \<and> c_conflict_type c = ''contained'' \<and> c_overlap_percentage c = 100"
proof -
  let ?z = "sample_zone (Some sample_buffered)"
  have 1: "shape box_kernel (zone_geom ?z) = Inr (Box 3 7 (-2) 2)"
    by (simp add: box_eval zone_geom_def)
  have 2: "shape box_kernel (z_geometry ?z) = Inr (Box 4 6 (-1) 1)"
    by (simp add: box_eval)
  have 3: "contains box_kernel (Box 4 6 (-1) 1) (Box 5 5 (3/2) (3/2)) = Inr True \<or>
           (contains box_kernel (Box 4 6 (-1) 1) (Box 5 5 (3/2) (3/2)) = Inr False \<and>
            contains box_kernel (Box 3 7 (-2) 2) (Box 5 5 (3/2) (3/2)) = Inr True)"
    by (simp add: box_eval)
  have 4: "intersects box_kernel (Box 5 5 (3/2) (3/2)) (Box 3 7 (-2) 2) = Inr True"
    by (simp add: box_eval)
  have 5: "intersects box_kernel (Box 4 6 (-1) 1) (Box 5 5 (3/2) (3/2)) = Inr True \<or>
           (intersects box_kernel (Box 4 6 (-1) 1) (Box 5 5 (3/2) (3/2)) = Inr False \<and>
            intersects box_kernel (Box 3 7 (-2) 2) (Box 5 5 (3/2) (3/2)) = Inr True)"
    by (simp add: box_eval)
  from contained_takes_precedence [OF 1 2 3 4 5, of "[]" "[]"]
  show ?thesis by (simp add: check_Nil sample_zone_def)
qed

subsection \<open>C1: the overlap of an intersecting route\<close>

lemma overlap_pct_Inr:
  assumes "overlap_pct K r zs = Inr p"
  shows "\<exists>inter rl. intersection K r zs = Inr inter \<and> length_attr K r = Some rl \<and>
           p = min (py_round1 ((case length_attr K inter of Some l \<Rightarrow> l | None \<Rightarrow> 0) /
                               (if 0 < rl then rl else 1) * 100)) 100"
proof -
  let ?ol = "\<lambda>inter. case length_attr K inter of Some l \<Rightarrow> l | None \<Rightarrow> (0::real)"
  from assms obtain inter rl q where i: "intersection K r zs = Inr inter"
    and rl: "get_length K r = Inr rl"
    and q: "py_truediv (?ol inter) (if 0 < rl then rl else 1) = Inr q"
    and p: "p = min (py_round1 (q * 100)) 100"
    by (auto simp: overlap_pct_def then_do_eq_Inr Let_def)
  from rl have l: "length_attr K r = Some rl"
    by (simp add: get_length_def split: option.splits)
  from q have "q = ?ol inter / (if 0 < rl then rl else 1)"
    by (simp add: py_truediv_def split: if_splits)
  with i l p show ?thesis by blast
qed




subsection \<open>C6: degenerate routes and the range of the overlap\<close>

lemma round_half_even_nonneg: "0 \<le> x \<Longrightarrow> 0 \<le> round_half_even x"
  by (simp add: round_half_even_def Let_def)

lemma clamped_round_range:
  assumes "0 \<le> x"
  shows "0 \<le> min (py_round1 x) 100 \<and> min (py_round1 x) 100 \<le> 100 \<and>
         (\<exists>n::int. min (py_round1 x) 100 = of_int n / 10)"
proof -
  have "0 \<le> round_half_even (x * 10)"
    using assms by (intro round_half_even_nonneg) simp
  then have "0 \<le> py_round1 x"
    by (simp add: py_round1_def)
  moreover have "\<exists>n::int. min (py_round1 x) 100 = of_int n / 10"
  proof (cases "py_round1 x \<le> 100")
    case True
    then show ?thesis
      by (intro exI [of _ "round_half_even (x * 10)"]) (simp add: py_round1_def)
  next
    case False
    then show ?thesis
      by (intro exI [of _ 1000]) simp
  qed
  ultimately show ?thesis by simp
qed

lemma zone_step_overlap:
  assumes "zone_step K r z = Inr (Some c)"
  shows "c_overlap_percentage c = 100 \<or>
         (\<exists>zs. overlap_pct K r zs = Inr (c_overlap_percentage c))"
  using assms
  by (auto simp: zone_step_def then_do_eq_Inr mk_conflict_def split: if_splits)

text \<open>
  Claim C6. Let the kernel report no negative length. (1) For a route of length 0 whose
  intersection with the zone shape is computed, the overlap computation returns, and its
  value is the intersection length divided by 1, times 100, rounded and capped.
  (2) For every route, an exception of the overlap computation is the one raised by
  \<open>intersection\<close> or the missing length attribute of the route: the division raises none.
  (3) For every route and batch, each reported overlap percentage lies in \<open>[0, 100]\<close> and is
  a whole number of tenths. The function \<open>check_route_against_zones\<close> itself is total: it
  returns a list on every input.
\<close>

theorem overlap_floor_and_range:
  assumes "\<forall>s l. length_attr K s = Some l \<longrightarrow> 0 \<le> l"
  shows "(\<forall>zs inter. length_attr K r = Some 0 \<and> intersection K r zs = Inr inter \<longrightarrow>
            overlap_pct K r zs =
              Inr (min (py_round1 ((case length_attr K inter of Some l \<Rightarrow> l | None \<Rightarrow> 0) / 1 *
                                   100)) 100)) \<and>
         (\<forall>zs e. overlap_pct K r zs = Inl e \<longrightarrow>
            intersection K r zs = Inl e \<or>
            (length_attr K r = None \<and> e = AttributeError ''length'')) \<and>
         (\<forall>c \<in> set (check_route_against_zones K r active_zones).
            0 \<le> c_overlap_percentage c \<and> c_overlap_percentage c \<le> 100 \<and>
            (\<exists>n::int. c_overlap_percentage c = of_int n / 10))"
proof -
  have degenerate: "overlap_pct K r zs =
      Inr (min (py_round1 ((case length_attr K inter of Some l \<Rightarrow> l | None \<Rightarrow> 0) / 1 * 100)) 100)"
    if "length_attr K r = Some 0 \<and> intersection K r zs = Inr inter" for zs inter
    using that by (simp add: overlap_pct_def get_length_def py_truediv_def)
  have raised: "intersection K r zs = Inl e \<or>
             (length_attr K r = None \<and> e = AttributeError ''length'')"
    if "overlap_pct K r zs = Inl e" for zs e
    using that
    by (auto simp: overlap_pct_def then_do_def get_length_def py_truediv_def Let_def
             split: sum.splits option.splits if_splits)
  have range: "0 \<le> c_overlap_percentage c \<and> c_overlap_percentage c \<le> 100 \<and>
        (\<exists>n::int. c_overlap_percentage c = of_int n / 10)"
    if "c \<in> set (check_route_against_zones K r active_zones)" for c
  proof -
    from that obtain z where step: "zone_step K r z = Inr (Some c)"
      by (auto simp: in_check_iff)
    from zone_step_overlap [OF step] show ?thesis
    proof
      assume "c_overlap_percentage c = 100"
      then show ?thesis by (simp add: exI [of _ 1000])
    next
      assume "\<exists>zs. overlap_pct K r zs = Inr (c_overlap_percentage c)"
      then obtain zs where "overlap_pct K r zs = Inr (c_overlap_percentage c)" ..
      from overlap_pct_Inr [OF this] obtain inter rl where
        rl: "length_attr K r = Some rl" and
        p: "c_overlap_percentage c =
              min (py_round1 ((case length_attr K inter of Some l \<Rightarrow> l | None \<Rightarrow> 0) /
                              (if 0 < rl then rl else 1) * 100)) 100"
        by blast
      have "0 \<le> (case length_attr K inter of Some l \<Rightarrow> l | None \<Rightarrow> 0)"
        using assms by (simp split: option.splits)
      then have "0 \<le> (case length_attr K inter of Some l \<Rightarrow> l | None \<Rightarrow> 0) /
                       (if 0 < rl then rl else 1) * 100"
        by simp
      from clamped_round_range [OF this] p show ?thesis by simp
    qed
  qed
  from degenerate raised range show ?thesis by blast
qed

lemma box_length_nonneg: "0 \<le> box_length s"
  by (cases s) simp_all

text \<open>The witness: the route of the two coincident points \<open>(5, 1)\<close>, on the boundary of a
  zone without buffer. The verdict is \<open>intersects\<close>, with overlap 0.\<close>

theorem overlap_floor_and_range_witness:
  "shape box_kernel (LineString [(5, 1), (5, 1)]) = Inr (Box 5 5 1 1) \<and>
   length_attr box_kernel (Box 5 5 1 1) = Some 0 \<and>
   overlap_pct box_kernel (Box 5 5 1 1) (Box 4 6 (-1) 1) = Inr 0 \<and>
   map c_conflict_type
     (check_route_against_zones box_kernel (Box 5 5 1 1) [sample_zone None]) = [''intersects''] \<and>
   list_all (\<lambda>c. 0 \<le> c_overlap_percentage c \<and> c_overlap_percentage c \<le> 100 \<and>
                  (\<exists>n::int. c_overlap_percentage c = of_int n / 10))
     (check_route_against_zones box_kernel (Box 5 5 1 1) [sample_zone None])"
proof -
  have nonneg: "\<forall>s l. length_attr box_kernel s = Some l \<longrightarrow> 0 \<le> l"
    by (auto simp: box_kernel_def box_length_nonneg)
  note w = overlap_floor_and_range [OF nonneg, of "Box 5 5 1 1" "[sample_zone None]"]
  have l: "length_attr box_kernel (Box 5 5 1 1) = Some 0"
    by (simp add: box_kernel_def)
  have i: "intersection box_kernel (Box 5 5 1 1) (Box 4 6 (-1) 1) = Inr (Box 5 5 1 1)"
    by (simp add: box_kernel_def)
  from w l i have "overlap_pct box_kernel (Box 5 5 1 1) (Box 4 6 (-1) 1) =
      Inr (min (py_round1 ((case length_attr box_kernel (Box 5 5 1 1) of Some l \<Rightarrow> l | None \<Rightarrow> 0) /
                           1 * 100)) 100)"
    by blast
  then have "overlap_pct box_kernel (Box 5 5 1 1) (Box 4 6 (-1) 1) = Inr 0"
    by (simp add: l py_round1_def round_half_even_def)
  moreover have "shape box_kernel (LineString [(5, 1), (5, 1)]) = Inr (Box 5 5 1 1)"
    by (simp add: box_kernel_def)
  moreover have "map c_conflict_type
     (check_route_against_zones box_kernel (Box 5 5 1 1) [sample_zone None]) = [''intersects'']"
    by (simp add: classifier_eval box_eval)
  ultimately show ?thesis using w l unfolding list_all_iff by blast
qed

subsection \<open>C4 and C10: the response of the on-demand check\<close>

lemma has_type_iff: "has_type ty cs \<longleftrightarrow> (\<exists>c \<in> set cs. c_conflict_type c = ty)"
  by (simp add: has_type_def list_ex_iff)

lemma check_types:
  assumes "c \<in> set (check_route_against_zones K r zs)"
  shows "c_conflict_type c = ''contained'' \<or> c_conflict_type c = ''buffer'' \<or>
         c_conflict_type c = ''intersects''"
proof -
  from assms obtain z where "zone_step K r z = Inr (Some c)"
    by (auto simp: in_check_iff)
  then show ?thesis by (rule zone_step_type)
qed

lemma has_type_map: "has_type ty cs \<longleftrightarrow> ty \<in> set (map c_conflict_type cs)"
  by (auto simp: has_type_iff)

lemma summary_message_worst_case:
  assumes "\<forall>c \<in> set cs. c_conflict_type c = ''contained'' \<or> c_conflict_type c = ''buffer'' \<or>
                        c_conflict_type c = ''intersects''"
  shows "summary_message cs =
     (if has_type ''contained'' cs then
        ''CRITICAL: Your entire route is inside an active hunting zone!''
      else if has_type ''intersects'' cs then
        ''WARNING: Your route crosses active hunting zones!''
      else if has_type ''buffer'' cs then
        ''CAUTION: Your route enters a buffer/safety zone near hunting areas.''
      else ''Safe: No conflicts with active hunting zones.'')"
proof (cases "cs = []")
  case True
  then show ?thesis by (simp add: summary_message_def has_type_def)
next
  case False
  then obtain c where "c \<in> set cs" by (cases cs) auto
  with assms have "has_type ''contained'' cs \<or> has_type ''buffer'' cs \<or> has_type ''intersects'' cs"
    unfolding has_type_iff by blast
  with False show ?thesis by (auto simp: summary_message_def)
qed

text \<open>The successful responses of \<^verbatim>\<open>check_intersection\<close>.\<close>

lemma check_intersection_Inr:
  assumes "check_intersection K d now data = Inr res"
  shows "(find_active_zones d (request_time now data) = [] \<and>
          res = \<lparr> i_intersects = False, i_zones = [],
                  i_safe_message = ''No active hunting zones at the selected time.'' \<rparr>) \<or>
         (find_active_zones d (request_time now data) \<noteq> [] \<and>
          (\<exists>g rs. request_geometry d data = Inr g \<and> shape K g = Inr rs \<and>
             res = \<lparr> i_intersects =
                       (0 < length (check_route_against_zones K rs
                                      (find_active_zones d (request_time now data)))),
                     i_zones = check_route_against_zones K rs
                                 (find_active_zones d (request_time now data)),
                     i_safe_message = summary_message
                       (check_route_against_zones K rs
                          (find_active_zones d (request_time now data))) \<rparr>))"
  using assms
  by (auto simp: check_intersection_def Let_def split: sum.splits if_splits)

text \<open>
  Claim C4. In every successful response of the on-demand check the summary message is
  chosen by the worst verdict among the returned conflicts: the CRITICAL message if one is
  \<open>contained\<close>, else the WARNING message if one is \<open>intersects\<close>, else the CAUTION message if
  one is \<open>buffer\<close>, else a safe message. The safe message is \<^verbatim>\<open>No active hunting zones
  at the selected time.\<close> when no zone is active at the instant of the request, and
  \<^verbatim>\<open>Safe: No conflicts with active hunting zones.\<close> otherwise.
\<close>

theorem summary_selected_by_worst_case:
  assumes "check_intersection K d now data = Inr res"
  shows "i_safe_message res =
     (if has_type ''contained'' (i_zones res) then
        ''CRITICAL: Your entire route is inside an active hunting zone!''
      else if has_type ''intersects'' (i_zones res) then
        ''WARNING: Your route crosses active hunting zones!''
      else if has_type ''buffer'' (i_zones res) then
        ''CAUTION: Your route enters a buffer/safety zone near hunting areas.''
      else if find_active_zones d (request_time now data) = [] then
        ''No active hunting zones at the selected time.''
      else ''Safe: No conflicts with active hunting zones.'')"
proof -
  from check_intersection_Inr [OF assms] show ?thesis
  proof
    assume "find_active_zones d (request_time now data) = [] \<and>
          res = \<lparr> i_intersects = False, i_zones = [],
                  i_safe_message = ''No active hunting zones at the selected time.'' \<rparr>"
    then show ?thesis by (simp add: has_type_def)
  next
    assume a: "find_active_zones d (request_time now data) \<noteq> [] \<and>
          (\<exists>g rs. request_geometry d data = Inr g \<and> shape K g = Inr rs \<and>
             res = \<lparr> i_intersects =
                       (0 < length (check_route_against_zones K rs
                                      (find_active_zones d (request_time now data)))),
                     i_zones = check_route_against_zones K rs
                                 (find_active_zones d (request_time now data)),
                     i_safe_message = summary_message
                       (check_route_against_zones K rs
                          (find_active_zones d (request_time now data))) \<rparr>)"
    then obtain rs where
      z: "i_zones res = check_route_against_zones K rs
                          (find_active_zones d (request_time now data))"
      and m: "i_safe_message res = summary_message (i_zones res)"
      by auto
    have "\<forall>c \<in> set (i_zones res). c_conflict_type c = ''contained'' \<or>
            c_conflict_type c = ''buffer'' \<or> c_conflict_type c = ''intersects''"
      unfolding z by (intro ballI) (rule check_types)
    from summary_message_worst_case [OF this] m a show ?thesis by simp
  qed
qed

text \<open>Sample requests: June 1st 2026, inside the sample zone's interval.\<close>

lemma sample_zone_covers:
  "covers ''2026-06-01T10:00:00+00:00'' (sample_zone b)"
  by (simp add: covers_def sample_zone_def)

theorem summary_selected_by_worst_case_witness:
  "\<exists>res. check_intersection box_kernel
           (sample_db [sample_zone None, sample_zone (Some sample_buffered)] [] [])
           ''2026-06-01T10:00:00+00:00''
           \<lparr> q_route_id = None, q_route_geometry = Some (LineString [(7 / 2, 0), (13 / 2, 0)]),
             q_check_time = Some ''2026-06-01T10:00:00+00:00'' \<rparr> = Inr res \<and>
         map c_conflict_type (i_zones res) = [''intersects'', ''contained''] \<and>
         i_safe_message res = ''CRITICAL: Your entire route is inside an active hunting zone!''"
proof -
  let ?d = "sample_db [sample_zone None, sample_zone (Some sample_buffered)] [] []"
  let ?q = "\<lparr> q_route_id = None, q_route_geometry = Some (LineString [(7 / 2, 0), (13 / 2, 0)]),
             q_check_time = Some ''2026-06-01T10:00:00+00:00'' \<rparr>"
  let ?cs = "check_route_against_zones box_kernel (Box (7 / 2) (13 / 2) 0 0)
               [sample_zone None, sample_zone (Some sample_buffered)]"
  let ?res = "\<lparr> i_intersects = (0 < length ?cs), i_zones = ?cs,
                i_safe_message = summary_message ?cs \<rparr>"
  have az: "find_active_zones ?d ''2026-06-01T10:00:00+00:00'' =
              [sample_zone None, sample_zone (Some sample_buffered)]"
    by (simp add: find_active_zones_def sample_db_def sample_zone_covers)
  have r: "check_intersection box_kernel ?d ''2026-06-01T10:00:00+00:00'' ?q = Inr ?res"
    by (simp add: check_intersection_def request_time_def request_geometry_def truthy_str_def
          truthy_geo_def az Let_def box_kernel_def)
  have t: "map c_conflict_type ?cs = [''intersects'', ''contained'']"
    by (simp add: check_Cons check_Nil zone_step_def zone_geom_def py_or_def py_not_and_def
          overlap_pct_def get_length_def py_truediv_def mk_conflict_def box_eval)
  have h: "has_type ''contained'' ?cs"
    unfolding has_type_map t by simp
  from summary_selected_by_worst_case [OF r] h
  have "i_safe_message ?res = ''CRITICAL: Your entire route is inside an active hunting zone!''"
    by simp
  with r t show ?thesis by (intro exI [of _ ?res]) simp
qed

text \<open>
  Claim C10. In every successful response of the on-demand check the field
  \<^verbatim>\<open>intersects\<close> is true exactly when the list of conflicts is not empty; so it is
  true when the list is not empty and every conflict in it is \<open>buffer\<close>.
\<close>

theorem intersects_flag_iff_conflicts:
  assumes "check_intersection K d now data = Inr res"
  shows "(i_intersects res \<longleftrightarrow> i_zones res \<noteq> []) \<and>
         (i_zones res \<noteq> [] \<and> (\<forall>c \<in> set (i_zones res). c_conflict_type c = ''buffer'')
            \<longrightarrow> i_intersects res)"
  using check_intersection_Inr [OF assms] by auto

theorem intersects_flag_iff_conflicts_witness:
  "\<exists>res. check_intersection box_kernel
           (sample_db [sample_zone (Some sample_buffered)] [] [])
           ''2026-06-01T10:00:00+00:00''
           \<lparr> q_route_id = None, q_route_geometry = Some (LineString [(0, 3 / 2), (10, 3 / 2)]),
             q_check_time = None \<rparr> = Inr res \<and>
         map c_conflict_type (i_zones res) = [''buffer''] \<and>
         i_intersects res"
proof -
  let ?d = "sample_db [sample_zone (Some sample_buffered)] [] []"
  let ?q = "\<lparr> q_route_id = None, q_route_geometry = Some (LineString [(0, 3 / 2), (10, 3 / 2)]),
             q_check_time = None \<rparr>"
  let ?cs = "check_route_against_zones box_kernel (Box 0 10 (3 / 2) (3 / 2))
               [sample_zone (Some sample_buffered)]"
  let ?res = "\<lparr> i_intersects = (0 < length ?cs), i_zones = ?cs,
                i_safe_message = summary_message ?cs \<rparr>"
  have az: "find_active_zones ?d ''2026-06-01T10:00:00+00:00'' =
              [sample_zone (Some sample_buffered)]"
    by (simp add: find_active_zones_def sample_db_def sample_zone_covers)
  have r: "check_intersection box_kernel ?d ''2026-06-01T10:00:00+00:00'' ?q = Inr ?res"
    by (simp add: check_intersection_def request_time_def request_geometry_def truthy_str_def
          truthy_geo_def az Let_def box_kernel_def)
  have t: "map c_conflict_type ?cs = [''buffer'']"
    by (simp add: check_Cons check_Nil zone_step_def zone_geom_def py_or_def py_not_and_def
          overlap_pct_def get_length_def py_truediv_def mk_conflict_def box_eval)
  from intersects_flag_iff_conflicts [OF r] t have "i_intersects ?res"
    by auto
  with r t show ?thesis by (intro exI [of _ ?res]) simp
qed

subsection \<open>C7: the zones active at an instant\<close>

text \<open>A store of \<open>n\<close> zones that differ in their identifier only.\<close>

lemma sample_zone_covers_any:
  "covers ''2026-06-01T10:00:00+00:00'' (sample_zone b\<lparr>z_id := i\<rparr>)"
  by (simp add: covers_def sample_zone_def)

text \<open>
  Claim C7 as stated fails: the query keeps the first 1000 matching documents. In a store of
  1001 zones that all cover the instant, the last one covers the instant and is not
  selected.
\<close>

theorem active_zones_counterexample:
  "numbered_zone 1000 \<in> set (zones (sample_db (map numbered_zone [0..<1001]) [] [])) \<and>
   str_le (z_start_time (numbered_zone 1000)) ''2026-06-01T10:00:00+00:00'' \<and>
   str_le ''2026-06-01T10:00:00+00:00'' (z_end_time (numbered_zone 1000)) \<and>
   numbered_zone 1000 \<notin>
     set (find_active_zones (sample_db (map numbered_zone [0..<1001]) [] [])
            ''2026-06-01T10:00:00+00:00'')"
proof -
  let ?t = "''2026-06-01T10:00:00+00:00''"
  have c: "covers ?t (numbered_zone n)" for n
    by (simp add: numbered_zone_def sample_zone_covers_any)
  have "filter (covers ?t) (map numbered_zone [0..<1001]) = map numbered_zone [0..<1001]"
    by (simp add: filter_map c)
  then have f: "find_active_zones (sample_db (map numbered_zone [0..<1001]) [] []) ?t =
                  map numbered_zone [0..<1000]"
    by (simp add: find_active_zones_def sample_db_def take_map)
  have inj: "n = m" if "numbered_zone n = numbered_zone m" for n m
  proof -
    from that have "z_id (numbered_zone n) = z_id (numbered_zone m)" by simp
    then have "length (replicate n CHR ''a'') = length (replicate m CHR ''a'')"
      by (simp add: numbered_zone_def)
    then show ?thesis by simp
  qed
  have "numbered_zone 1000 \<notin> set (map numbered_zone [0..<1000])"
  proof
    assume "numbered_zone 1000 \<in> set (map numbered_zone [0..<1000])"
    then obtain n where "n < 1000" "numbered_zone 1000 = numbered_zone n" by auto
    with inj show False by fastforce
  qed
  moreover have "numbered_zone 1000 \<in> set (map numbered_zone [0..<1001])"
    by simp
  moreover from c [of 1000] have
    "str_le (z_start_time (numbered_zone 1000)) ?t \<and> str_le ?t (z_end_time (numbered_zone 1000))"
    by (simp add: covers_def)
  ultimately show ?thesis unfolding f by (simp add: sample_db_def)
qed

text \<open>
  Claim C7, amended. The selection is the first 1000, in store order, of the zones with
  \<open>start_time \<le> instant \<le> end_time\<close> in the bytewise order of strings. So every selected
  zone is a stored zone whose interval covers the instant, and when at most 1000 stored
  zones cover the instant a zone is selected if and only if it is one of them. The
  listing endpoint \<^verbatim>\<open>GET /zones\<close> with \<^verbatim>\<open>active\<close> or \<^verbatim>\<open>date\<close> set
  selects the same zones.
\<close>

theorem active_zones_selection:
  "(\<forall>z \<in> set (find_active_zones d instant).
      z \<in> set (zones d) \<and> str_le (z_start_time z) instant \<and> str_le instant (z_end_time z)) \<and>
   (length (filter (covers instant) (zones d)) \<le> 1000 \<longrightarrow>
      (\<forall>z. z \<in> set (find_active_zones d instant) \<longleftrightarrow>
            z \<in> set (zones d) \<and> str_le (z_start_time z) instant \<and>
            str_le instant (z_end_time z))) \<and>
   (\<forall>ys. filter (covers instant) (zones d) = find_active_zones d instant @ ys \<longrightarrow>
      ys = drop 1000 (filter (covers instant) (zones d))) \<and>
   (truthy_str date \<longrightarrow> get_zones d now active date = find_active_zones d (the date)) \<and>
   (active = Some True \<and> \<not> truthy_str date \<longrightarrow>
      get_zones d now active date = find_active_zones d now)"
proof -
  let ?f = "filter (covers instant) (zones d)"
  have sound: "z \<in> set (zones d) \<and> str_le (z_start_time z) instant \<and>
               str_le instant (z_end_time z)"
    if "z \<in> set (find_active_zones d instant)" for z
  proof -
    from that have "z \<in> set ?f"
      unfolding find_active_zones_def by (rule in_set_takeD)
    then show ?thesis by (simp add: covers_def)
  qed
  have complete: "z \<in> set (find_active_zones d instant) \<longleftrightarrow>
            z \<in> set (zones d) \<and> str_le (z_start_time z) instant \<and>
            str_le instant (z_end_time z)"
    if "length ?f \<le> 1000" for z
    using that by (auto simp: find_active_zones_def covers_def)
  have rest: "ys = drop 1000 ?f" if "?f = find_active_zones d instant @ ys" for ys
  proof -
    have "?f = take 1000 ?f @ drop 1000 ?f" by simp
    with that show ?thesis
      unfolding find_active_zones_def by (metis same_append_eq)
  qed
  have g1: "get_zones d now active date = find_active_zones d (the date)" if "truthy_str date"
    using that by (simp add: get_zones_def find_active_zones_def)
  have g2: "get_zones d now active date = find_active_zones d now"
    if "active = Some True \<and> \<not> truthy_str date"
    using that by (simp add: get_zones_def find_active_zones_def)
  from sound complete rest g1 g2 show ?thesis by blast
qed

theorem active_zones_selection_witness:
  "find_active_zones
     (sample_db [sample_zone None, sample_zone None\<lparr>z_end_time := ''2026-03-01T00:00:00+00:00''\<rparr>]
        [] [])
     ''2026-06-01T10:00:00+00:00'' = [sample_zone None] \<and>
   list_all (\<lambda>z. str_le (z_start_time z) ''2026-06-01T10:00:00+00:00'' \<and>
                  str_le ''2026-06-01T10:00:00+00:00'' (z_end_time z))
     (find_active_zones
        (sample_db [sample_zone None,
                    sample_zone None\<lparr>z_end_time := ''2026-03-01T00:00:00+00:00''\<rparr>] [] [])
        ''2026-06-01T10:00:00+00:00'')"
proof -
  let ?d = "sample_db [sample_zone None,
                       sample_zone None\<lparr>z_end_time := ''2026-03-01T00:00:00+00:00''\<rparr>] [] []"
  have "find_active_zones ?d ''2026-06-01T10:00:00+00:00'' = [sample_zone None]"
    by (simp add: find_active_zones_def sample_db_def covers_def sample_zone_def)
  with active_zones_selection [of ?d "''2026-06-01T10:00:00+00:00''"]
  show ?thesis unfolding list_all_iff by blast
qed

subsection \<open>C8: buffering falls back to the raw polygon\<close>

text \<open>
  Claim C8. If any call of the buffering raises (building the shape, buffering it, or
  mapping the result back to a dictionary), \<^verbatim>\<open>compute_buffer\<close> returns the polygon it
  was given, for every polygon and every buffer distance; and the creation of a zone by an
  administrator then still succeeds, stores the zone with its raw polygon as buffered
  geometry, and schedules the fan-out.
\<close>

theorem buffer_failure_returns_raw:
  assumes "(\<exists>e. shape K g = Inl e) \<or>
           (\<exists>s. shape K g = Inr s \<and>
              ((\<exists>e. buffer K s (of_int m / 111320) = Inl e) \<or>
               (\<exists>b. buffer K s (of_int m / 111320) = Inr b \<and> (\<exists>e. mapping K b = Inl e))))"
  shows "compute_buffer K g m = g \<and>
         (u_role usr = ''admin'' \<and> zc_geometry data = g \<and> zc_buffer_meters data = m \<longrightarrow>
            (\<exists>zone_doc. create_zone K d zone_id now data usr =
                 Inr (zone_doc, d\<lparr>zones := zones d @ [zone_doc]\<rparr>,
                      [CheckRoutesAgainstNewZone zone_doc]) \<and>
               z_geometry zone_doc = g \<and> z_buffered_geometry zone_doc = Some g))"
proof -
  from assms have "compute_buffer K g m = g"
    by (auto simp: compute_buffer_def)
  then show ?thesis
    by (auto simp: create_zone_def Let_def)
qed

text \<open>The witness: a dictionary that is no geometry, submitted by an administrator with the
  default distance of 200 meters.\<close>

theorem buffer_failure_returns_raw_witness:
  "shape box_kernel OtherDict = Inl (GeometryError ''unsupported geometry'') \<and>
   compute_buffer box_kernel OtherDict 200 = OtherDict \<and>
   (\<exists>zone_doc.
      create_zone box_kernel (sample_db [] [] []) ''z9'' ''2026-06-01T10:00:00+00:00''
        \<lparr> zc_name = ''Coto'', zc_description = None, zc_geometry = OtherDict,
          zc_start_time = ''2026-06-01T00:00:00+00:00'',
          zc_end_time = ''2026-06-02T00:00:00+00:00'', zc_buffer_meters = 200 \<rparr>
        \<lparr> u_id = ''admin1'', u_name = ''Ana'', u_role = ''admin'',
          u_organization_name = Some ''Club'' \<rparr> =
        Inr (zone_doc, sample_db [] [] []\<lparr>zones := zones (sample_db [] [] []) @ [zone_doc]\<rparr>,
             [CheckRoutesAgainstNewZone zone_doc]) \<and>
      z_geometry zone_doc = OtherDict \<and> z_buffered_geometry zone_doc = Some OtherDict)"
proof -
  have s: "shape box_kernel OtherDict = Inl (GeometryError ''unsupported geometry'')"
    by (simp add: box_kernel_def)
  then have "(\<exists>e. shape box_kernel OtherDict = Inl e) \<or>
           (\<exists>s. shape box_kernel OtherDict = Inr s \<and>
              ((\<exists>e. buffer box_kernel s (of_int 200 / 111320) = Inl e) \<or>
               (\<exists>b. buffer box_kernel s (of_int 200 / 111320) = Inr b \<and>
                    (\<exists>e. mapping box_kernel b = Inl e))))"
    by blast
  from buffer_failure_returns_raw [OF this,
      of "\<lparr> u_id = ''admin1'', u_name = ''Ana'', u_role = ''admin'',
            u_organization_name = Some ''Club'' \<rparr>"
         "\<lparr> zc_name = ''Coto'', zc_description = None, zc_geometry = OtherDict,
            zc_start_time = ''2026-06-01T00:00:00+00:00'',
            zc_end_time = ''2026-06-02T00:00:00+00:00'', zc_buffer_meters = 200 \<rparr>"
         "sample_db [] [] []" "''z9''" "''2026-06-01T10:00:00+00:00''"]
  show ?thesis using s by simp
qed

text \<open>When no call raises, the buffered polygon is the one the kernel computes: the sample
  polygon with 111320 meters, one degree, becomes the sample buffered polygon.\<close>

lemma compute_buffer_sample:
  "compute_buffer box_kernel sample_polygon 111320 = sample_buffered"
  by (simp add: compute_buffer_def box_kernel_def sample_polygon_def sample_buffered_def)

subsection \<open>Auxiliary facts about the fan-out loops\<close>




lemma users_to_notify_routes [simp]:
  "users_to_notify (d\<lparr>routes := rts\<rparr>) r = users_to_notify d r"
  by (simp add: users_to_notify_def)

lemma new_zone_route_step_routes [simp]:
  "new_zone_route_step K fstr (d\<lparr>routes := rts\<rparr>) zd zs ozs r =
     new_zone_route_step K fstr d zd zs ozs r"
  by (simp add: new_zone_route_step_def cong: if_cong)

lemma new_zone_loop_routes [simp]:
  "new_zone_loop K fstr (d\<lparr>routes := rts\<rparr>) zd zs ozs xs acc =
     new_zone_loop K fstr d zd zs ozs xs acc"
  by (induction xs arbitrary: acc) (simp_all split: sum.splits)




subsection \<open>C9: an exception on one pair does not abort the batch\<close>



subsection \<open>C2: which routes a new zone notifies\<close>






subsection \<open>C5: anonymous uploads\<close>

text \<open>
  Claim C5 as stated fails in its second half. An anonymous upload of a route that crosses
  the sample zone schedules no task: the check is not run. Had it run for the stored
  route, it would have found the conflict.
\<close>

theorem anonymous_upload_counterexample:
  "upload_route (sample_db [sample_zone (Some sample_buffered)] [] []) ''r1''
     ''2026-01-01T00:00:00+00:00'' (Inr sample_gpx) ''Senda'' None None =
   Inr (sample_route ''anonymous'' (0, 0) (10, 0)\<lparr>r_owner_name := ''Anonymous''\<rparr>,
        sample_db [sample_zone (Some sample_buffered)]
          [sample_route ''anonymous'' (0, 0) (10, 0)\<lparr>r_owner_name := ''Anonymous''\<rparr>] [],
        []) \<and>
   map (d_conflict_type \<circ> n_data)
     (check_uploaded_route_against_zones box_kernel float_str
        (sample_db [sample_zone (Some sample_buffered)]
           [sample_route ''anonymous'' (0, 0) (10, 0)\<lparr>r_owner_name := ''Anonymous''\<rparr>] [])
        ''2026-01-01T00:00:00+00:00''
        (sample_route ''anonymous'' (0, 0) (10, 0)\<lparr>r_owner_name := ''Anonymous''\<rparr>)
        ''anonymous'') = [''intersects'']"
proof -
  have "upload_route (sample_db [sample_zone (Some sample_buffered)] [] []) ''r1''
     ''2026-01-01T00:00:00+00:00'' (Inr sample_gpx) ''Senda'' None None =
   Inr (sample_route ''anonymous'' (0, 0) (10, 0)\<lparr>r_owner_name := ''Anonymous''\<rparr>,
        sample_db [sample_zone (Some sample_buffered)]
          [sample_route ''anonymous'' (0, 0) (10, 0)\<lparr>r_owner_name := ''Anonymous''\<rparr>] [],
        [])"
    by (simp add: upload_route_def sample_gpx_def sample_route_def sample_db_def Let_def)
  moreover have "map (d_conflict_type \<circ> n_data)
     (check_uploaded_route_against_zones box_kernel float_str
        (sample_db [sample_zone (Some sample_buffered)]
           [sample_route ''anonymous'' (0, 0) (10, 0)\<lparr>r_owner_name := ''Anonymous''\<rparr>] [])
        ''2026-01-01T00:00:00+00:00''
        (sample_route ''anonymous'' (0, 0) (10, 0)\<lparr>r_owner_name := ''Anonymous''\<rparr>)
        ''anonymous'') = [''intersects'']"
    by (simp add: check_uploaded_route_against_zones_def uploaded_zone_step_def zone_geom_def
          py_or_def overlap_pct_def get_length_def py_truediv_def create_notification_def
          mk_notif_data_def box_eval)
  ultimately show ?thesis by blast
qed

text \<open>
  Claim C5, amended. A successful upload without an authenticated user, or by a user whose
  identifier is the sentinel \<^verbatim>\<open>anonymous\<close>, schedules no task: the route is stored,
  \<^verbatim>\<open>check_uploaded_route_against_zones\<close> is not invoked, and running what was
  scheduled leaves the notifications as they were. A successful upload by any other user
  schedules exactly the check of the stored route for that user.
\<close>

theorem anonymous_upload_schedules_nothing:
  assumes "upload_route d route_id now parsed name filename usr = Inr (route_doc, d', tasks)"
  shows "(usr = None \<or> (\<exists>u. usr = Some u \<and> u_id u = ''anonymous'') \<longrightarrow>
            tasks = [] \<and> r_user_id route_doc = ''anonymous'' \<and>
            routes d' = routes d @ [route_doc] \<and>
            notifications (foldl (run_task K fstr later) d' tasks) = notifications d) \<and>
         (\<forall>u. usr = Some u \<and> u_id u \<noteq> ''anonymous'' \<longrightarrow>
            tasks = [CheckUploadedRouteAgainstZones route_doc (u_id u)])"
  using assms
  by (auto simp: upload_route_def Let_def split: sum.splits if_splits)

theorem anonymous_upload_schedules_nothing_witness:
  "\<exists>route_doc d'.
     upload_route (sample_db [sample_zone (Some sample_buffered)] [] []) ''r1''
       ''2026-01-01T00:00:00+00:00'' (Inr sample_gpx) ''Senda'' None None =
       Inr (route_doc, d', []) \<and>
     r_user_id route_doc = ''anonymous'' \<and>
     notifications (foldl (run_task box_kernel float_str ''2026-01-01T00:00:01+00:00'') d' []) =
       []"
proof -
  let ?rd = "sample_route ''anonymous'' (0, 0) (10, 0)\<lparr>r_owner_name := ''Anonymous''\<rparr>"
  let ?d = "sample_db [sample_zone (Some sample_buffered)] [] []"
  let ?d' = "sample_db [sample_zone (Some sample_buffered)] [?rd] []"
  have u: "upload_route ?d ''r1'' ''2026-01-01T00:00:00+00:00'' (Inr sample_gpx) ''Senda''
             None None = Inr (?rd, ?d', [])"
    by (simp add: upload_route_def sample_gpx_def sample_route_def sample_db_def Let_def)
  from anonymous_upload_schedules_nothing [OF u, of box_kernel float_str
      "''2026-01-01T00:00:01+00:00''"]
  have "r_user_id ?rd = ''anonymous'' \<and>
        notifications (foldl (run_task box_kernel float_str ''2026-01-01T00:00:01+00:00'') ?d' []) =
          notifications ?d"
    by simp
  with u show ?thesis
    by (intro exI [of _ ?rd] exI [of _ ?d']) (simp add: sample_db_def)
qed

end
